theory Spec2Isabelle
  imports Main "HOL-Library.Word" "HOL-Library.List_Lexorder"
begin

section \<open>JavaScript values\<close>

text \<open>
  A JavaScript string is a sequence of UTF-16 code units. String literals of the source
  are ASCII; \<open>lit\<close> maps an Isabelle literal to its code units.
\<close>

type_synonym jsstring = "16 word list"

definition lit :: "string \<Rightarrow> jsstring" where
  "lit s = map (\<lambda>c. of_char c) s"

text \<open>
  A field declared \<^verbatim>\<open>f?: T | null\<close> has three states: the key is missing
  (\<^verbatim>\<open>undefined\<close>), it is \<^verbatim>\<open>null\<close>, or it carries a value.
\<close>

datatype 'a optional = Undefined | Null | Value 'a

text \<open>
  \<^verbatim>\<open>String.prototype.trim\<close> strips the code units of ECMAScript's WhiteSpace and
  LineTerminator productions from both ends. All of them lie in the Basic Multilingual
  Plane, so one code unit each.
\<close>

definition is_ws :: "16 word \<Rightarrow> bool" where
  "is_ws c \<longleftrightarrow>
     c \<in> {0x9, 0xA, 0xB, 0xC, 0xD, 0x20, 0xA0, 0x1680, 0x2028, 0x2029, 0x202F, 0x205F,
          0x3000, 0xFEFF}
     \<or> (0x2000 \<le> c \<and> c \<le> 0x200A)"

definition trim :: "jsstring \<Rightarrow> jsstring" where
  "trim s = rev (dropWhile is_ws (rev (dropWhile is_ws s)))"

text \<open>
  \<^verbatim>\<open>a || b\<close> where \<open>a\<close> is a string or nullish: \<open>a\<close> when it is a non-empty
  string, \<open>b\<close> otherwise.
\<close>

fun or_str :: "jsstring optional \<Rightarrow> jsstring \<Rightarrow> jsstring" where
  "or_str (Value s) b = (if s = [] then b else s)"
| "or_str Undefined b = b"
| "or_str Null b = b"

section \<open>The axios client, as both callers see it\<close>

text \<open>
  \<^verbatim>\<open>interface ApiErrorResponse { message: string }\<close>. The body comes from JSON, so
  the key may be missing at run time, which is what \<^verbatim>\<open>data?.message || ...\<close> in
  both callers provides for.
\<close>

record ApiErrorResponse =
  message :: "jsstring optional"

record 'b axios_response =
  resp_status :: nat
  resp_data :: 'b

text \<open>
  What a \<^verbatim>\<open>catch\<close> block can receive: an \<^verbatim>\<open>AxiosError\<close> (its \<^verbatim>\<open>response\<close> is
  missing on a network failure or a timeout; its \<^verbatim>\<open>message\<close> is always a string),
  another \<^verbatim>\<open>Error\<close> with its message, or a thrown value that is no \<^verbatim>\<open>Error\<close>.
\<close>

datatype thrown =
    AxiosError "ApiErrorResponse optional axios_response option" jsstring
  | OtherError jsstring
  | NonError

text \<open>
  What \<^verbatim>\<open>await axios.get<PropertyData>(...)\<close> can do: resolve with a response or
  reject. The type parameter \<open>'d\<close> is the \<^verbatim>\<open>PropertyData\<close> payload, of which the
  proxy and the page only test the truthiness.
\<close>

datatype 'd axios_outcome =
    Resolved "'d optional axios_response"
  | Rejected thrown

text \<open>
  \<^verbatim>\<open>try { body } catch (e) { h }\<close> over results that are either a thrown value
  (\<open>Inl\<close>) or a returned one (\<open>Inr\<close>).
\<close>

definition try_catch :: "thrown + 'a \<Rightarrow> (thrown \<Rightarrow> thrown + 'a) \<Rightarrow> thrown + 'a" where
  "try_catch body h = (case body of Inl e \<Rightarrow> h e | Inr v \<Rightarrow> Inr v)"

text \<open>\<^verbatim>\<open>axiosError.response?.data?.message\<close>\<close>

definition response_message ::
    "ApiErrorResponse optional axios_response option \<Rightarrow> jsstring optional" where
  "response_message resp =
     (case resp of
        None \<Rightarrow> Undefined
      | Some r \<Rightarrow> (case resp_data r of Value d \<Rightarrow> message d | _ \<Rightarrow> Undefined))"

section \<open>The proxy endpoint: \<^verbatim>\<open>pages/api/property.ts\<close>\<close>

text \<open>
  \<^verbatim>\<open>req.method\<close> is \<^verbatim>\<open>string | undefined\<close>; a query parameter is missing, one
  string, or an array of strings (the key repeated).
\<close>

datatype query_value = QAbsent | QString jsstring | QArray "jsstring list"

record NextApiRequest =
  req_method :: "jsstring option"
  query_address :: query_value

datatype 'd res_body = ErrorBody jsstring | DataBody 'd

record 'd api_response =
  res_status :: nat
  res_headers :: "(jsstring \<times> jsstring list) list"
  res_body :: "'d res_body"

text \<open>The one outbound request the handler can make.\<close>

record backend_call =
  call_url :: jsstring
  call_address :: jsstring
  call_timeout :: nat

text \<open>
  \<^verbatim>\<open>const BACKEND_API_URL = process.env.BACKEND_API_URL || 'http://localhost:8001/property'\<close>
\<close>

definition BACKEND_API_URL :: "jsstring optional \<Rightarrow> jsstring" where
  "BACKEND_API_URL env = or_str env (lit ''http://localhost:8001/property'')"

text \<open>A template literal prints a missing method as \<^verbatim>\<open>undefined\<close>.\<close>

definition template_method :: "jsstring option \<Rightarrow> jsstring" where
  "template_method m = (case m of None \<Rightarrow> lit ''undefined'' | Some s \<Rightarrow> s)"

text \<open>
  \<^verbatim>\<open>!address || typeof address !== 'string' || address.trim() === ''\<close>: a missing
  parameter and the empty string are falsy, an array (even an empty one) is truthy
  but not a string.
\<close>

fun address_rejected :: "query_value \<Rightarrow> bool" where
  "address_rejected QAbsent = True"
| "address_rejected (QArray as) = True"
| "address_rejected (QString a) = (a = [] \<or> trim a = [])"

definition backend_request :: "jsstring optional \<Rightarrow> jsstring \<Rightarrow> backend_call" where
  "backend_request env a =
     \<lparr>call_url = BACKEND_API_URL env, call_address = trim a, call_timeout = 15000\<rparr>"

text \<open>\<^verbatim>\<open>axiosError.response?.status || 500\<close>: a missing response and status 0 are falsy.\<close>

definition status_or_500 :: "'b axios_response option \<Rightarrow> nat" where
  "status_or_500 resp =
     (case resp of
        None \<Rightarrow> 500
      | Some r \<Rightarrow> if resp_status r = 0 then 500 else resp_status r)"

definition json :: "nat \<Rightarrow> jsstring \<Rightarrow> 'd api_response" where
  "json st msg = \<lparr>res_status = st, res_headers = [], res_body = ErrorBody msg\<rparr>"

text \<open>The \<^verbatim>\<open>catch\<close> block of the handler.\<close>

fun handler_catch :: "thrown \<Rightarrow> 'd api_response" where
  "handler_catch (AxiosError resp msg) =
     json (status_or_500 resp)
       (or_str (response_message resp)
          (or_str (Value msg) (lit ''Error fetching data from backend service.'')))"
| "handler_catch (OtherError m) =
     json 500 (lit ''An unexpected error occurred while fetching property data.'')"
| "handler_catch NonError =
     json 500 (lit ''An unexpected error occurred while fetching property data.'')"

text \<open>The \<^verbatim>\<open>try\<close> block once the awaited call has settled.\<close>

fun relay :: "'d axios_outcome \<Rightarrow> 'd api_response" where
  "relay (Resolved r) =
     (case resp_data r of
        Value d \<Rightarrow>
          if resp_status r = 200
          then \<lparr>res_status = 200, res_headers = [], res_body = DataBody d\<rparr>
          else json 500 (lit ''Received invalid response from backend service.'')
      | _ \<Rightarrow> json 500 (lit ''Received invalid response from backend service.''))"
| "relay (Rejected e) = handler_catch e"

text \<open>
  The handler returns its response together with the outbound calls it made, in order.
  \<open>env\<close> is \<^verbatim>\<open>process.env.BACKEND_API_URL\<close>; \<open>backend\<close> is what the network answers
  to a call. Console output is not modelled.
\<close>

definition handler ::
    "jsstring optional \<Rightarrow> (backend_call \<Rightarrow> 'd axios_outcome) \<Rightarrow> NextApiRequest
       \<Rightarrow> 'd api_response \<times> backend_call list" where
  "handler env backend req =
     (if req_method req \<noteq> Some (lit ''GET'') then
        (\<lparr>res_status = 405, res_headers = [(lit ''Allow'', [lit ''GET''])],
          res_body = ErrorBody
            (lit ''Method '' @ template_method (req_method req) @ lit '' Not Allowed'')\<rparr>,
         [])
      else if address_rejected (query_address req) then
        (json 400 (lit ''Address query parameter is required and cannot be empty.''), [])
      else
        (case query_address req of
           QString a \<Rightarrow>
             (relay (backend (backend_request env a)), [backend_request env a])
         | _ \<Rightarrow>
             (json 400 (lit ''Address query parameter is required and cannot be empty.''),
              [])))"

section \<open>The search page: \<^verbatim>\<open>app/page.tsx\<close>\<close>

text \<open>The four \<^verbatim>\<open>useState\<close> cells of \<^verbatim>\<open>HomePage\<close>.\<close>

record 'd page_state =
  propertyData :: "'d option"
  isLoading :: bool
  error :: "jsstring option"
  isNotFoundError :: bool

text \<open>The four setters called before the request is sent.\<close>

definition search_started :: "'d page_state \<Rightarrow> 'd page_state" where
  "search_started s =
     s\<lparr>isLoading := True, error := None, isNotFoundError := False, propertyData := None\<rparr>"

text \<open>
  The \<^verbatim>\<open>catch\<close> block: the message chosen, whether it is a 'not found', and the
  setters at its end.
\<close>

fun search_catch :: "thrown \<Rightarrow> 'd page_state \<Rightarrow> 'd page_state" where
  "search_catch (AxiosError resp msg) s =
     (if map_option resp_status resp = Some 404 then
        s\<lparr>isNotFoundError := True,
          error := Some (or_str (response_message resp)
            (lit ''No data found for the specified address. Please check the address and try again.'')),
          propertyData := None\<rparr>
      else
        s\<lparr>isNotFoundError := False,
          error := Some (or_str (response_message resp) msg),
          propertyData := None\<rparr>)"
| "search_catch (OtherError m) s =
     s\<lparr>isNotFoundError := False, error := Some m, propertyData := None\<rparr>"
| "search_catch NonError s =
     s\<lparr>isNotFoundError := False,
       error := Some (lit ''An unexpected error occurred. Please try again later.''),
       propertyData := None\<rparr>"

text \<open>
  One search, from submit to the \<^verbatim>\<open>finally\<close> block. \<open>api\<close> is what
  \<^verbatim>\<open>GET /api/property\<close> answers for the address. An empty body of a resolved
  response is thrown as an \<^verbatim>\<open>Error\<close> inside the \<^verbatim>\<open>try\<close> and lands in the same
  \<^verbatim>\<open>catch\<close>.
\<close>

definition handleSearchSubmit ::
    "(jsstring \<Rightarrow> 'd axios_outcome) \<Rightarrow> jsstring \<Rightarrow> 'd page_state \<Rightarrow> 'd page_state" where
  "handleSearchSubmit api address s =
     (let s1 = search_started s;
          s2 = (case api address of
                  Resolved r \<Rightarrow>
                    (case resp_data r of
                       Value d \<Rightarrow> s1\<lparr>propertyData := Some d\<rparr>
                     | _ \<Rightarrow> search_catch (OtherError (lit ''Received empty data from server.'')) s1)
                | Rejected e \<Rightarrow> search_catch e s1)
      in s2\<lparr>isLoading := False\<rparr>)"

text \<open>The alert of the page: \<^verbatim>\<open>{error && !isLoading && (<Alert ...>)}\<close>.\<close>

datatype alert_variant = Default | Destructive

datatype alert_icon = AlertCircle | Terminal

record alert =
  variant :: alert_variant
  icon :: alert_icon
  alert_title :: jsstring
  alert_description :: jsstring

definition HomePage_alert :: "'d page_state \<Rightarrow> alert option" where
  "HomePage_alert s =
     (case error s of
        None \<Rightarrow> None
      | Some e \<Rightarrow>
          if e \<noteq> [] \<and> \<not> isLoading s then
            Some \<lparr>variant = (if isNotFoundError s then Default else Destructive),
                  icon = (if isNotFoundError s then AlertCircle else Terminal),
                  alert_title = (if isNotFoundError s then lit ''Information''
                                 else lit ''Search Failed''),
                  alert_description = e\<rparr>
          else None)"

section \<open>The formatting helpers: \<^verbatim>\<open>lib/utils.ts\<close>\<close>

text \<open>
  The helpers do no arithmetic on a number: they hand it to the runtime's
  \<^verbatim>\<open>toLocaleString\<close>. So the number type is a parameter \<open>'n\<close>, and the runtime's
  functions are parameters of the helpers; those that may throw return a sum. The
  options objects are the ones the source builds.
\<close>

record 'n NumberFormatOptions =
  style :: jsstring
  currency :: jsstring
  maximumFractionDigits :: 'n

record DateTimeFormatOptions =
  year :: jsstring
  month :: jsstring
  day :: jsstring

type_synonym 'n toLocaleString =
  "'n \<Rightarrow> jsstring \<Rightarrow> 'n NumberFormatOptions option \<Rightarrow> thrown + jsstring"

text \<open>
  The default \<^verbatim>\<open>maximumFractionDigits: number = 0\<close> applies when the argument is
  left out (\<open>None\<close>).
\<close>

definition formatCurrency ::
    "('n::zero) toLocaleString \<Rightarrow> 'n optional \<Rightarrow> 'n option \<Rightarrow> thrown + jsstring" where
  "formatCurrency toLocaleString v maximumFractionDigits' =
     (case v of
        Value x \<Rightarrow>
          try_catch
            (toLocaleString x (lit ''en-US'')
               (Some \<lparr>style = lit ''currency'', currency = lit ''USD'',
                      maximumFractionDigits =
                        (case maximumFractionDigits' of None \<Rightarrow> 0 | Some m \<Rightarrow> m)\<rparr>))
            (\<lambda>error. Inr (lit ''N/A''))
      | _ \<Rightarrow> Inr (lit ''N/A''))"

definition formatNumber :: "'n toLocaleString \<Rightarrow> 'n optional \<Rightarrow> thrown + jsstring" where
  "formatNumber toLocaleString v =
     (case v of
        Value x \<Rightarrow> try_catch (toLocaleString x (lit ''en-US'') None) (\<lambda>error. Inr (lit ''N/A''))
      | _ \<Rightarrow> Inr (lit ''N/A''))"

text \<open>
  \<open>new_Date\<close> is \<^verbatim>\<open>new Date(dateString)\<close> followed by \<^verbatim>\<open>getTime()\<close>: \<open>None\<close>
  when the time value is \<^verbatim>\<open>NaN\<close>. \<^verbatim>\<open>!dateString\<close> holds for a missing, a null
  and an empty string.
\<close>

definition formatDate ::
    "(jsstring \<Rightarrow> 't option) \<Rightarrow> ('t \<Rightarrow> jsstring \<Rightarrow> DateTimeFormatOptions \<Rightarrow> thrown + jsstring)
       \<Rightarrow> jsstring optional \<Rightarrow> thrown + jsstring" where
  "formatDate new_Date toLocaleDateString dateString =
     (case dateString of
        Value ds \<Rightarrow>
          if ds = [] then Inr (lit ''N/A'')
          else
            try_catch
              (case new_Date ds of
                 None \<Rightarrow> Inr (lit ''Invalid Date'')
               | Some t \<Rightarrow>
                   toLocaleDateString t (lit ''en-US'')
                     \<lparr>year = lit ''numeric'', month = lit ''short'', day = lit ''numeric''\<rparr>)
              (\<lambda>e. Inr (lit ''Invalid Date''))
      | _ \<Rightarrow> Inr (lit ''N/A''))"

definition trend_green :: jsstring where
  "trend_green = lit ''bg-green-100 text-green-800 border-green-300 dark:bg-green-900/30 dark:text-green-300 dark:border-green-700''"

definition trend_red :: jsstring where
  "trend_red = lit ''bg-red-100 text-red-800 border-red-300 dark:bg-red-900/30 dark:text-red-300 dark:border-red-700''"

definition trend_gray :: jsstring where
  "trend_gray = lit ''bg-gray-100 text-gray-800 border-gray-300 dark:bg-gray-700/30 dark:text-gray-300 dark:border-gray-600''"

definition trend_yellow :: jsstring where
  "trend_yellow = lit ''bg-yellow-100 text-yellow-800 border-yellow-300 dark:bg-yellow-900/30 dark:text-yellow-300 dark:border-yellow-700''"

text \<open>
  \<^verbatim>\<open>switch (trend?.toLowerCase())\<close>: the switch value is \<^verbatim>\<open>undefined\<close> for a
  missing or null trend and matches no case. \<^verbatim>\<open>toLowerCase\<close> is the runtime's and
  does not throw on a string.
\<close>

definition getTrendColor :: "(jsstring \<Rightarrow> jsstring) \<Rightarrow> jsstring optional \<Rightarrow> thrown + jsstring" where
  "getTrendColor toLowerCase trend =
     (case trend of
        Value t \<Rightarrow>
          (let l = toLowerCase t in
           if l = lit ''increasing'' then Inr trend_green
           else if l = lit ''decreasing'' then Inr trend_red
           else if l = lit ''stable'' then Inr trend_gray
           else Inr trend_yellow)
      | _ \<Rightarrow> Inr trend_yellow)"

section \<open>The record on display: \<^verbatim>\<open>types/index.ts\<close>\<close>

text \<open>
  \<^verbatim>\<open>HistoricalValue\<close> and \<^verbatim>\<open>PredictionPoint\<close> are two interfaces of one shape
  (\<^verbatim>\<open>date: string; value: number\<close>); the dashboard casts one to the other. The
  field \<^verbatim>\<open>value\<close> is \<open>val\<close> here and the field \<^verbatim>\<open>id\<close> of \<^verbatim>\<open>PropertyData\<close> is
  \<open>property_id\<close>, since Isabelle has other uses for these two names. Numbers
  are of the type parameter \<open>'n\<close>.
\<close>

record 'n HistoricalValue =
  date :: jsstring
  val :: 'n

type_synonym 'n PredictionPoint = "'n HistoricalValue"

record 'n CensusData =
  totalPopulation :: "'n optional"
  malePopulation :: "'n optional"
  femalePopulation :: "'n optional"
  medianAge :: "'n optional"

datatype MarketTrend = Increasing | Decreasing | Stable | Unknown | Error

record 'n PropertyData =
  property_id :: "jsstring optional"
  address :: "jsstring optional"
  formattedAddress :: "jsstring optional"
  latitude :: "'n optional"
  longitude :: "'n optional"
  bedrooms :: "'n optional"
  bathrooms :: "'n optional"
  squareFootage :: "'n optional"
  lotSize :: "'n optional"
  yearBuilt :: "'n optional"
  propertyType :: "jsstring optional"
  description :: "jsstring optional"
  valueEstimate :: "'n optional"
  valueEstimateLow :: "'n optional"
  valueEstimateHigh :: "'n optional"
  rentEstimate :: "'n optional"
  rentEstimateLow :: "'n optional"
  rentEstimateHigh :: "'n optional"
  lastSoldDate :: "jsstring optional"
  lastSoldPrice :: "'n optional"
  zipCode :: "jsstring optional"
  predictedValueNextYear :: "'n optional"
  predictionConfidence :: "'n optional"
  predictedRentNextYear :: "'n optional"
  marketTrend :: "MarketTrend optional"
  trendConfidence :: "'n optional"
  historicalValues :: "'n HistoricalValue list optional"
  predictionPoints :: "'n PredictionPoint list optional"
  censusData :: "'n CensusData optional"
  aiSummary :: "jsstring optional"

text \<open>The record with every key missing.\<close>

definition no_data :: "'n PropertyData" where
  "no_data =
     \<lparr>property_id = Undefined, address = Undefined, formattedAddress = Undefined,
      latitude = Undefined, longitude = Undefined, bedrooms = Undefined,
      bathrooms = Undefined, squareFootage = Undefined, lotSize = Undefined,
      yearBuilt = Undefined, propertyType = Undefined, description = Undefined,
      valueEstimate = Undefined, valueEstimateLow = Undefined, valueEstimateHigh = Undefined,
      rentEstimate = Undefined, rentEstimateLow = Undefined, rentEstimateHigh = Undefined,
      lastSoldDate = Undefined, lastSoldPrice = Undefined, zipCode = Undefined,
      predictedValueNextYear = Undefined, predictionConfidence = Undefined,
      predictedRentNextYear = Undefined, marketTrend = Undefined, trendConfidence = Undefined,
      historicalValues = Undefined, predictionPoints = Undefined, censusData = Undefined,
      aiSummary = Undefined\<rparr>"

section \<open>The charts: \<^verbatim>\<open>valuehistorychart.tsx\<close>, \<^verbatim>\<open>PredictionChart.tsx\<close>\<close>

text \<open>
  Of a chart, the model keeps the data of its one series, each point the pair
  \<^verbatim>\<open>[item.date, item.value]\<close>; axes, colours and theme are left out.
\<close>

type_synonym 'n series = "(jsstring \<times> 'n) list"

definition ValueHistoryChart :: "'n HistoricalValue list \<Rightarrow> 'n series" where
  "ValueHistoryChart data = map (\<lambda>item. (date item, val item)) data"

text \<open>
  \<^verbatim>\<open>historicalData\<close> is an optional prop. The index \<^verbatim>\<open>historicalData.length - 1\<close> is
  read only under the guard \<^verbatim>\<open>historicalData.length > 0\<close>.
\<close>

definition PredictionChart ::
    "'n PredictionPoint list \<Rightarrow> 'n PredictionPoint list option \<Rightarrow> 'n series" where
  "PredictionChart data historicalData =
     (let combinedData =
            (case historicalData of
               None \<Rightarrow> data
             | Some h \<Rightarrow> if length h > 0 then (h ! (length h - 1)) # data else data)
      in map (\<lambda>item. (date item, val item)) combinedData)"

section \<open>The dashboard: \<^verbatim>\<open>insightsdashboard.tsx\<close>\<close>

text \<open>\<^verbatim>\<open>xs.slice(-1)\<close>: the last element alone, or nothing of an empty array.\<close>

definition slice_last :: "'a list \<Rightarrow> 'a list" where
  "slice_last xs = drop (length xs - 1) xs"

text \<open>What one \<^verbatim>\<open>CensusDataItem\<close> shows: its label and the formatted number.\<close>

record census_item =
  item_label :: jsstring
  item_display :: jsstring

text \<open>
  The dashboard passes a number, null or undefined. A number goes through
  \<open>formatNumber\<close>; the item renders nothing for a nullish value and for the
  formatted text \<^verbatim>\<open>N/A\<close>.
\<close>

definition CensusDataItem ::
    "'n toLocaleString \<Rightarrow> jsstring \<Rightarrow> 'n optional \<Rightarrow> thrown + census_item option" where
  "CensusDataItem toLocaleString label v =
     (case v of
        Value x \<Rightarrow>
          (case formatNumber toLocaleString (Value x) of
             Inl e \<Rightarrow> Inl e
           | Inr displayValue \<Rightarrow>
               if displayValue = lit ''N/A'' then Inr None
               else Inr (Some \<lparr>item_label = label, item_display = displayValue\<rparr>))
      | _ \<Rightarrow> Inr None)"

text \<open>
  \<^verbatim>\<open>Object.values(data.censusData)\<close>, over the keys the interface declares; a key
  that is missing contributes nothing to \<^verbatim>\<open>some\<close>, as an undefined value does.
\<close>

definition Object_values :: "'n CensusData \<Rightarrow> 'n optional list" where
  "Object_values c = [totalPopulation c, malePopulation c, femalePopulation c, medianAge c]"

definition hasHistoricalData :: "'n PropertyData \<Rightarrow> bool" where
  "hasHistoricalData data =
     (case historicalValues data of Value xs \<Rightarrow> length xs > 0 | _ \<Rightarrow> False)"

definition hasPredictionPoints :: "'n PropertyData \<Rightarrow> bool" where
  "hasPredictionPoints data =
     (case predictionPoints data of Value xs \<Rightarrow> length xs > 0 | _ \<Rightarrow> False)"

definition hasCensusData :: "'n PropertyData \<Rightarrow> bool" where
  "hasCensusData data =
     (case censusData data of
        Value c \<Rightarrow> list_ex (\<lambda>v. v \<noteq> Null \<and> v \<noteq> Undefined) (Object_values c)
      | _ \<Rightarrow> False)"

text \<open>
  The body of a section is a chart, the grid of census items, or a paragraph of
  placeholder text. Of the rendered card the model keeps the Demographics section
  (heading and body) and the bodies of the two chart sections. The header and the
  valuation, prediction, summary and details sections are left out: each is a
  separate subtree that reads other fields of the data and does not change these
  three.
\<close>

datatype 'n section_body =
    Chart "'n series"
  | CensusGrid "census_item option list"
  | Placeholder jsstring

record 'n dashboard =
  demographics_heading :: jsstring
  demographics :: "'n section_body"
  historical_chart :: "'n section_body"
  forecast_chart :: "'n section_body"

datatype 'n view = Skeleton | Nothing | Card "'n dashboard"

definition demographics_section ::
    "'n toLocaleString \<Rightarrow> 'n PropertyData \<Rightarrow> thrown + 'n section_body" where
  "demographics_section toLocaleString data =
     (if hasCensusData data then
        (let c = (case censusData data of Value c \<Rightarrow> Some c | _ \<Rightarrow> None);
             field = (\<lambda>f. case c of Some c \<Rightarrow> f c | None \<Rightarrow> Undefined) in
         case CensusDataItem toLocaleString (lit ''Total Population'') (field totalPopulation) of
           Inl e \<Rightarrow> Inl e
         | Inr i1 \<Rightarrow>
         (case CensusDataItem toLocaleString (lit ''Median Age'') (field medianAge) of
           Inl e \<Rightarrow> Inl e
         | Inr i2 \<Rightarrow>
         (case CensusDataItem toLocaleString (lit ''Male Population'') (field malePopulation) of
           Inl e \<Rightarrow> Inl e
         | Inr i3 \<Rightarrow>
         (case CensusDataItem toLocaleString (lit ''Female Population'') (field femalePopulation) of
           Inl e \<Rightarrow> Inl e
         | Inr i4 \<Rightarrow> Inr (CensusGrid [i1, i2, i3, i4])))))
      else Inr (Placeholder (lit ''Demographic data is not available for this area.'')))"

definition historical_section :: "'n PropertyData \<Rightarrow> 'n section_body" where
  "historical_section data =
     (if hasHistoricalData data then
        (case historicalValues data of
           Value xs \<Rightarrow> Chart (ValueHistoryChart xs)
         | _ \<Rightarrow> Placeholder (lit ''Historical value data is not available for this property.''))
      else Placeholder (lit ''Historical value data is not available for this property.''))"

definition forecast_section :: "'n PropertyData \<Rightarrow> 'n section_body" where
  "forecast_section data =
     (if hasPredictionPoints data then
        (case predictionPoints data of
           Value ps \<Rightarrow>
             Chart (PredictionChart ps
               (case historicalValues data of
                  Value xs \<Rightarrow> Some (slice_last xs)
                | _ \<Rightarrow> None))
         | _ \<Rightarrow> Placeholder (lit ''Value forecast chart could not be generated.''))
      else Placeholder (lit ''Value forecast chart could not be generated.''))"

text \<open>
  The component: the skeleton while loading, nothing without data, the card otherwise.
  A helper that threw would throw out of the render.
\<close>

definition InsightsDashboard ::
    "'n toLocaleString \<Rightarrow> 'n PropertyData option \<Rightarrow> bool \<Rightarrow> thrown + 'n view" where
  "InsightsDashboard toLocaleString data' isLoading' =
     (if isLoading' then Inr Skeleton
      else
        (case data' of
           None \<Rightarrow> Inr Nothing
         | Some data \<Rightarrow>
             (case demographics_section toLocaleString data of
                Inl e \<Rightarrow> Inl e
              | Inr demo \<Rightarrow>
                  Inr (Card
                    \<lparr>demographics_heading =
                       lit ''Demographics (Zip Code: '' @ or_str (zipCode data) (lit ''N/A'')
                         @ lit '')'',
                     demographics = demo,
                     historical_chart = historical_section data,
                     forecast_chart = forecast_section data\<rparr>))))"

text \<open>The census items a section body shows.\<close>

definition shown_items :: "'n section_body \<Rightarrow> census_item list" where
  "shown_items b =
     (case b of
        CensusGrid items \<Rightarrow> concat (map (\<lambda>i. case i of None \<Rightarrow> [] | Some x \<Rightarrow> [x]) items)
      | _ \<Rightarrow> [])"

section \<open>The invariant the specification states for the point sequences\<close>

text \<open>
  This definition follows the specification, not the source: a sequence that is
  present is non-empty and ordered by ascending date. Dates are
  \<^verbatim>\<open>YYYY-MM-DD\<close> strings, so ascending date is the lexicographic order of the
  code units.
\<close>

definition spec_sequence_invariant :: "'n HistoricalValue list optional \<Rightarrow> bool" where
  "spec_sequence_invariant f =
     (case f of
        Value xs \<Rightarrow> xs \<noteq> [] \<and> sorted_wrt (\<lambda>p q. date p \<le> date q) xs
      | _ \<Rightarrow> True)"

section \<open>Example records\<close>

text \<open>
  A record whose historical sequence is present and empty and whose prediction
  points are present and in descending date order; every other key is missing.
\<close>

definition unordered_data :: "int PropertyData" where
  "unordered_data =
     no_data\<lparr>historicalValues := Value [],
       predictionPoints := Value [\<lparr>date = lit ''2026-01-01'', val = 2\<rparr>,
                                  \<lparr>date = lit ''2025-01-01'', val = 1\<rparr>]\<rparr>"

text \<open>The record of the specification's chart example; every other key is missing.\<close>

definition two_point_data :: "int PropertyData" where
  "two_point_data =
     no_data\<lparr>historicalValues := Value [\<lparr>date = lit ''2023-01-01'', val = 300000\<rparr>,
                                   \<lparr>date = lit ''2024-01-01'', val = 320000\<rparr>]\<rparr>"

section \<open>A reference runtime\<close>

text \<open>
  The runtime's functions are parameters of the helpers. To evaluate a helper on a
  concrete input, this section gives one instance of them for whole numbers:
  \<^verbatim>\<open>toLocaleString\<close> for the locale \<^verbatim>\<open>en-US\<close> as ECMA-402 (2023 edition) and the
  CLDR data define it (digits grouped in threes by commas; for the currency style
  \<^verbatim>\<open>$\<close> in front and, when only \<^verbatim>\<open>maximumFractionDigits\<close> is given, as many
  fraction digits as the smaller of it and the currency's two), and
  \<^verbatim>\<open>toLowerCase\<close> on ASCII letters.
\<close>

definition digit :: "nat \<Rightarrow> 16 word" where
  "digit k = of_nat (48 + k)"

function decimal :: "nat \<Rightarrow> jsstring" where
  "decimal n = (if n < 10 then [digit n] else decimal (n div 10) @ [digit (n mod 10)])"
  by pat_completeness auto
termination
  by (relation "measure (\<lambda>n. n)") auto

fun group3 :: "jsstring \<Rightarrow> jsstring" where
  "group3 (a # b # c # d # ds) = a # b # c # 0x2C # group3 (d # ds)"
| "group3 ds = ds"

definition en_US_integer :: "int \<Rightarrow> jsstring" where
  "en_US_integer i = rev (group3 (rev (decimal (nat \<bar>i\<bar>))))"

definition en_US_toLocaleString :: "int toLocaleString" where
  "en_US_toLocaleString x locale opts =
     (if locale \<noteq> lit ''en-US'' then Inl (OtherError (lit ''Incorrect locale information provided''))
      else
        (case opts of
           None \<Rightarrow> Inr ((if x < 0 then lit ''-'' else []) @ en_US_integer x)
         | Some opt \<Rightarrow>
             if style opt \<noteq> lit ''currency'' \<or> currency opt \<noteq> lit ''USD''
             then Inl (OtherError (lit ''Value out of range''))
             else if maximumFractionDigits opt < 0 \<or> 100 < maximumFractionDigits opt
             then Inl (OtherError (lit ''maximumFractionDigits value is out of range.''))
             else
               Inr ((if x < 0 then lit ''-'' else []) @ lit ''$'' @ en_US_integer x
                    @ (if maximumFractionDigits opt = 0 then []
                       else lit ''.'' @ replicate (nat (min 2 (maximumFractionDigits opt))) (digit 0)))))"

definition ascii_toLowerCase :: "jsstring \<Rightarrow> jsstring" where
  "ascii_toLowerCase s = map (\<lambda>c. if 0x41 \<le> c \<and> c \<le> 0x5A then c + 0x20 else c) s"

section \<open>Properties of the proxy endpoint\<close>

text \<open>A string trims to the empty string exactly when it is empty or all white space.\<close>

lemma trim_empty_iff: "trim a = [] \<longleftrightarrow> (\<forall>c \<in> set a. is_ws c)"
proof
  assume "trim a = []"
  then have all_rest: "\<forall>c \<in> set (dropWhile is_ws a). is_ws c"
    by (simp add: trim_def)
  have "dropWhile is_ws a = []"
  proof (rule ccontr)
    assume ne: "dropWhile is_ws a \<noteq> []"
    then have "\<not> is_ws (hd (dropWhile is_ws a))"
      by (rule hd_dropWhile)
    moreover from ne have "hd (dropWhile is_ws a) \<in> set (dropWhile is_ws a)"
      by simp
    ultimately show False
      using all_rest by blast
  qed
  then show "\<forall>c \<in> set a. is_ws c"
    by simp
next
  assume "\<forall>c \<in> set a. is_ws c"
  then show "trim a = []"
    by (auto simp: trim_def dest: set_dropWhileD)
qed

lemma or_str_nonempty: "b \<noteq> [] \<Longrightarrow> or_str a b \<noteq> []"
  by (cases a) auto

text \<open>
  C4. A request whose method is not \<^verbatim>\<open>GET\<close> (or is missing) is answered with status
  405, the header \<^verbatim>\<open>Allow: GET\<close> and a body whose message field names the method;
  no call to the backend is made.
\<close>

theorem handler_method_not_allowed:
  "req_method req \<noteq> Some (lit ''GET'') \<Longrightarrow>
   handler env backend req =
     (\<lparr>res_status = 405, res_headers = [(lit ''Allow'', [lit ''GET''])],
       res_body = ErrorBody
         (lit ''Method '' @ template_method (req_method req) @ lit '' Not Allowed'')\<rparr>,
      [])"
  by (simp add: handler_def)

theorem handler_method_not_allowed_witness:
  "handler Undefined (\<lambda>c. Rejected NonError)
     \<lparr>req_method = Some (lit ''POST''), query_address = QString (lit ''1 Main St'')\<rparr> =
     (\<lparr>res_status = 405, res_headers = [(lit ''Allow'', [lit ''GET''])],
       res_body = ErrorBody (lit ''Method POST Not Allowed'')\<rparr>,
      ([] :: backend_call list))"
proof -
  have m: "req_method \<lparr>req_method = Some (lit ''POST''),
      query_address = QString (lit ''1 Main St'')\<rparr> \<noteq> Some (lit ''GET'')"
    by (simp add: lit_def)
  show ?thesis
    using handler_method_not_allowed [OF m, of Undefined "\<lambda>c. Rejected NonError"]
    by (simp add: template_method_def lit_def)
qed

text \<open>
  C1. A \<^verbatim>\<open>GET\<close> request whose \<^verbatim>\<open>address\<close> parameter is missing, is an array, or
  is a string that trims to the empty string is answered with status 400 and a body
  with a message field; no call to the backend is made.
\<close>

theorem handler_rejects_empty_address:
  "req_method req = Some (lit ''GET'') \<Longrightarrow>
   query_address req = QAbsent \<or> (\<exists>as. query_address req = QArray as)
     \<or> (\<exists>a. query_address req = QString a \<and> trim a = []) \<Longrightarrow>
   handler env backend req =
     (\<lparr>res_status = 400, res_headers = [],
       res_body = ErrorBody (lit ''Address query parameter is required and cannot be empty.'')\<rparr>,
      [])"
  by (auto simp: handler_def json_def)

theorem handler_rejects_empty_address_witness:
  "handler Undefined (\<lambda>c. Resolved \<lparr>resp_status = 200, resp_data = Value (0::nat)\<rparr>)
     \<lparr>req_method = Some (lit ''GET''), query_address = QString (lit '' '')\<rparr> =
     (\<lparr>res_status = 400, res_headers = [],
       res_body = ErrorBody (lit ''Address query parameter is required and cannot be empty.'')\<rparr>,
      [])
   \<and> handler Undefined (\<lambda>c. Resolved \<lparr>resp_status = 200, resp_data = Value (0::nat)\<rparr>)
     \<lparr>req_method = Some (lit ''GET''), query_address = QArray [lit ''a'', lit ''b'']\<rparr> =
     (\<lparr>res_status = 400, res_headers = [],
       res_body = ErrorBody (lit ''Address query parameter is required and cannot be empty.'')\<rparr>,
      [])
   \<and> handler Undefined (\<lambda>c. Resolved \<lparr>resp_status = 200, resp_data = Value (0::nat)\<rparr>)
     \<lparr>req_method = Some (lit ''GET''), query_address = QAbsent\<rparr> =
     (\<lparr>res_status = 400, res_headers = [],
       res_body = ErrorBody (lit ''Address query parameter is required and cannot be empty.'')\<rparr>,
      [])"
proof -
  let ?b = "\<lambda>c::backend_call. Resolved \<lparr>resp_status = 200, resp_data = Value (0::nat)\<rparr>"
  have t: "trim (lit '' '') = []"
    by (simp add: trim_def lit_def is_ws_def)
  have 1: "handler Undefined ?b
      \<lparr>req_method = Some (lit ''GET''), query_address = QString (lit '' '')\<rparr> =
     (\<lparr>res_status = 400, res_headers = [],
       res_body = ErrorBody (lit ''Address query parameter is required and cannot be empty.'')\<rparr>,
      [])"
    by (rule handler_rejects_empty_address) (simp_all add: t)
  have 2: "handler Undefined ?b
      \<lparr>req_method = Some (lit ''GET''), query_address = QArray [lit ''a'', lit ''b'']\<rparr> =
     (\<lparr>res_status = 400, res_headers = [],
       res_body = ErrorBody (lit ''Address query parameter is required and cannot be empty.'')\<rparr>,
      [])"
    by (rule handler_rejects_empty_address) simp_all
  have 3: "handler Undefined ?b
      \<lparr>req_method = Some (lit ''GET''), query_address = QAbsent\<rparr> =
     (\<lparr>res_status = 400, res_headers = [],
       res_body = ErrorBody (lit ''Address query parameter is required and cannot be empty.'')\<rparr>,
      [])"
    by (rule handler_rejects_empty_address) simp_all
  from 1 2 3 show ?thesis by blast
qed

text \<open>
  C3. The claim that a failed backend call is answered with the backend's status and
  message when the response carries them, and otherwise with status 500 and a default
  message, fails for a response that carries a status but no message: a backend
  answer of 502 with no body is relayed with status 502, not 500, and its message is
  the text axios gave the error, not a default of the proxy.
\<close>

theorem backend_status_without_message_counterexample:
  "response_message (Some \<lparr>resp_status = 502, resp_data = Undefined\<rparr>) = Undefined
   \<and> handler Undefined
        (\<lambda>c. Rejected (AxiosError (Some \<lparr>resp_status = 502, resp_data = Undefined\<rparr>)
           (lit ''Request failed with status code 502'')) :: nat axios_outcome)
        \<lparr>req_method = Some (lit ''GET''), query_address = QString (lit ''1 Main St'')\<rparr> =
        (\<lparr>res_status = 502, res_headers = [],
          res_body = ErrorBody (lit ''Request failed with status code 502'')\<rparr>,
         [\<lparr>call_url = lit ''http://localhost:8001/property'',
           call_address = lit ''1 Main St'', call_timeout = 15000\<rparr>])
   \<and> res_status (fst (handler Undefined
        (\<lambda>c. Rejected (AxiosError (Some \<lparr>resp_status = 502, resp_data = Undefined\<rparr>)
           (lit ''Request failed with status code 502'')) :: nat axios_outcome)
        \<lparr>req_method = Some (lit ''GET''), query_address = QString (lit ''1 Main St'')\<rparr>))
      \<noteq> 500
   \<and> lit ''Request failed with status code 502''
      \<noteq> lit ''Error fetching data from backend service.''"
proof -
  have m: "response_message (Some \<lparr>resp_status = 502, resp_data = Undefined\<rparr>) = Undefined"
    by (simp add: response_message_def)
  have t: "trim (lit ''1 Main St'') = lit ''1 Main St''"
    by (simp add: trim_def lit_def is_ws_def)
  have n: "lit ''1 Main St'' \<noteq> []" "lit ''Request failed with status code 502'' \<noteq> []"
    by (simp_all add: lit_def)
  have h: "handler Undefined
        (\<lambda>c. Rejected (AxiosError (Some \<lparr>resp_status = 502, resp_data = Undefined\<rparr>)
           (lit ''Request failed with status code 502'')) :: nat axios_outcome)
        \<lparr>req_method = Some (lit ''GET''), query_address = QString (lit ''1 Main St'')\<rparr> =
        (\<lparr>res_status = 502, res_headers = [],
          res_body = ErrorBody (lit ''Request failed with status code 502'')\<rparr>,
         [\<lparr>call_url = lit ''http://localhost:8001/property'',
           call_address = lit ''1 Main St'', call_timeout = 15000\<rparr>])"
    using t n m
    by (simp add: handler_def backend_request_def BACKEND_API_URL_def json_def
        status_or_500_def)
  have s: "res_status (fst (handler Undefined
        (\<lambda>c. Rejected (AxiosError (Some \<lparr>resp_status = 502, resp_data = Undefined\<rparr>)
           (lit ''Request failed with status code 502'')) :: nat axios_outcome)
        \<lparr>req_method = Some (lit ''GET''), query_address = QString (lit ''1 Main St'')\<rparr>))
      \<noteq> 500"
    unfolding h by simp
  have d: "lit ''Request failed with status code 502''
      \<noteq> lit ''Error fetching data from backend service.''"
    by (simp add: lit_def)
  from m h s d show ?thesis
    by (intro conjI)
qed

text \<open>
  C3, as the code has it. When the call to the backend fails, the caught value is an
  \<^verbatim>\<open>AxiosError\<close> with a response (a status outside 2xx) or without one (network
  failure, timeout), or some other thrown value. The \<^verbatim>\<open>catch\<close> block chooses the
  status and the message separately: the status is the one the backend response
  carries, else 500; the message is the one the backend response carries, else the
  error's own message, or a fixed text when that is empty; the message is never
  empty. Without a response the status is 500. Exactly one call was made.
\<close>

theorem handler_backend_failure:
  assumes "req_method req = Some (lit ''GET'')"
    and "query_address req = QString a"
    and "trim a \<noteq> []"
    and "backend (backend_request env a) = Rejected e"
  shows "snd (handler env backend req) = [backend_request env a]
    \<and> (\<exists>m. res_body (fst (handler env backend req)) = ErrorBody m \<and> m \<noteq> [])
    \<and> (\<forall>resp msg. e = AxiosError resp msg \<longrightarrow>
          (\<forall>r. resp = Some r \<and> resp_status r \<noteq> 0 \<longrightarrow>
             res_status (fst (handler env backend req)) = resp_status r)
        \<and> (\<forall>m. response_message resp = Value m \<and> m \<noteq> [] \<longrightarrow>
             res_body (fst (handler env backend req)) = ErrorBody m)
        \<and> ((\<forall>m. response_message resp = Value m \<longrightarrow> m = []) \<longrightarrow>
             res_body (fst (handler env backend req)) =
               ErrorBody (if msg = [] then lit ''Error fetching data from backend service.''
                          else msg))
        \<and> (resp = None \<longrightarrow> res_status (fst (handler env backend req)) = 500))
    \<and> ((\<forall>resp msg. e \<noteq> AxiosError resp msg) \<longrightarrow>
          fst (handler env backend req) =
            json 500 (lit ''An unexpected error occurred while fetching property data.''))"
proof -
  from assms(3) have "a \<noteq> []"
    by (auto simp: trim_def)
  with assms have h: "handler env backend req = (handler_catch e, [backend_request env a])"
    by (simp add: handler_def)
  have d1: "lit ''Error fetching data from backend service.'' \<noteq> []"
    and d2: "lit ''An unexpected error occurred while fetching property data.'' \<noteq> []"
    by (simp_all add: lit_def)
  have body: "\<exists>m. res_body (handler_catch e :: 'a api_response) = ErrorBody m \<and> m \<noteq> []"
  proof (cases e)
    case (AxiosError resp msg)
    have "or_str (Value msg) (lit ''Error fetching data from backend service.'') \<noteq> []"
      using d1 by (rule or_str_nonempty)
    then have "or_str (response_message resp)
        (or_str (Value msg) (lit ''Error fetching data from backend service.'')) \<noteq> []"
      by (rule or_str_nonempty)
    with AxiosError show ?thesis
      by (simp add: json_def)
  next
    case (OtherError m)
    with d2 show ?thesis by (simp add: json_def)
  next
    case NonError
    with d2 show ?thesis by (simp add: json_def)
  qed
  have axios: "\<forall>resp msg. e = AxiosError resp msg \<longrightarrow>
          (\<forall>r. resp = Some r \<and> resp_status r \<noteq> 0 \<longrightarrow>
             res_status (handler_catch e :: 'a api_response) = resp_status r)
        \<and> (\<forall>m. response_message resp = Value m \<and> m \<noteq> [] \<longrightarrow>
             res_body (handler_catch e :: 'a api_response) = ErrorBody m)
        \<and> ((\<forall>m. response_message resp = Value m \<longrightarrow> m = []) \<longrightarrow>
             res_body (handler_catch e :: 'a api_response) =
               ErrorBody (if msg = [] then lit ''Error fetching data from backend service.''
                          else msg))
        \<and> (resp = None \<longrightarrow> res_status (handler_catch e :: 'a api_response) = 500)"
  proof (intro allI impI conjI)
    fix resp msg r
    assume "e = AxiosError resp msg" "resp = Some r \<and> resp_status r \<noteq> 0"
    then show "res_status (handler_catch e :: 'a api_response) = resp_status r"
      by (simp add: json_def status_or_500_def)
  next
    fix resp msg m
    assume "e = AxiosError resp msg" "response_message resp = Value m \<and> m \<noteq> []"
    then show "res_body (handler_catch e :: 'a api_response) = ErrorBody m"
      by (simp add: json_def)
  next
    fix resp msg
    assume "e = AxiosError resp msg" "\<forall>m. response_message resp = Value m \<longrightarrow> m = []"
    then show "res_body (handler_catch e :: 'a api_response) =
        ErrorBody (if msg = [] then lit ''Error fetching data from backend service.'' else msg)"
      by (cases "response_message resp") (simp_all add: json_def)
  next
    fix resp msg
    assume "e = AxiosError resp msg" "resp = None"
    then show "res_status (handler_catch e :: 'a api_response) = 500"
      by (simp add: json_def status_or_500_def)
  qed
  have other: "(\<forall>resp msg. e \<noteq> AxiosError resp msg) \<longrightarrow>
      (handler_catch e :: 'a api_response) =
        json 500 (lit ''An unexpected error occurred while fetching property data.'')"
    by (cases e) simp_all
  from body axios other show ?thesis
    unfolding h fst_conv snd_conv by blast
qed

theorem handler_backend_failure_witness:
  "res_status (fst (handler Undefined
       (\<lambda>c. Rejected (AxiosError
          (Some \<lparr>resp_status = 503,
                 resp_data = Value \<lparr>message = Value (lit ''upstream down'')\<rparr>\<rparr>)
          (lit ''Request failed with status code 503'')) :: nat axios_outcome)
       \<lparr>req_method = Some (lit ''GET''), query_address = QString (lit ''1 Main St'')\<rparr>)) = 503
   \<and> res_body (fst (handler Undefined
       (\<lambda>c. Rejected (AxiosError
          (Some \<lparr>resp_status = 503,
                 resp_data = Value \<lparr>message = Value (lit ''upstream down'')\<rparr>\<rparr>)
          (lit ''Request failed with status code 503'')) :: nat axios_outcome)
       \<lparr>req_method = Some (lit ''GET''), query_address = QString (lit ''1 Main St'')\<rparr>))
       = ErrorBody (lit ''upstream down'')
   \<and> res_status (fst (handler Undefined
       (\<lambda>c. Rejected (AxiosError None (lit ''timeout of 15000ms exceeded'')) :: nat axios_outcome)
       \<lparr>req_method = Some (lit ''GET''), query_address = QString (lit ''1 Main St'')\<rparr>)) = 500
   \<and> res_body (fst (handler Undefined
       (\<lambda>c. Rejected (AxiosError None (lit ''timeout of 15000ms exceeded'')) :: nat axios_outcome)
       \<lparr>req_method = Some (lit ''GET''), query_address = QString (lit ''1 Main St'')\<rparr>))
       = ErrorBody (lit ''timeout of 15000ms exceeded'')"
proof -
  let ?req = "\<lparr>req_method = Some (lit ''GET''), query_address = QString (lit ''1 Main St'')\<rparr>"
  let ?b1 = "\<lambda>c::backend_call. Rejected (AxiosError
          (Some \<lparr>resp_status = 503,
                 resp_data = Value \<lparr>message = Value (lit ''upstream down'')\<rparr>\<rparr>)
          (lit ''Request failed with status code 503'')) :: nat axios_outcome"
  let ?b2 = "\<lambda>c::backend_call.
      Rejected (AxiosError None (lit ''timeout of 15000ms exceeded'')) :: nat axios_outcome"
  have g: "req_method ?req = Some (lit ''GET'')" by simp
  have q: "query_address ?req = QString (lit ''1 Main St'')" by simp
  have t: "trim (lit ''1 Main St'') \<noteq> []"
    by (simp add: trim_def lit_def is_ws_def)
  have f1: "?b1 (backend_request Undefined (lit ''1 Main St'')) = Rejected (AxiosError
          (Some \<lparr>resp_status = 503,
                 resp_data = Value \<lparr>message = Value (lit ''upstream down'')\<rparr>\<rparr>)
          (lit ''Request failed with status code 503''))"
    by simp
  have f2: "?b2 (backend_request Undefined (lit ''1 Main St'')) =
      Rejected (AxiosError None (lit ''timeout of 15000ms exceeded''))"
    by simp
  have m1: "response_message (Some \<lparr>resp_status = 503,
      resp_data = Value \<lparr>message = Value (lit ''upstream down'')\<rparr>\<rparr>) = Value (lit ''upstream down'')"
    by (simp add: response_message_def)
  have n1: "lit ''upstream down'' \<noteq> []" and n2: "lit ''timeout of 15000ms exceeded'' \<noteq> []"
    by (simp_all add: lit_def)
  have m2: "\<forall>m. response_message None = Value m \<longrightarrow> m = []"
    by (simp add: response_message_def)
  note w1 = handler_backend_failure [OF g q t f1]
  note w2 = handler_backend_failure [OF g q t f2]
  from w1 m1 n1 have a: "res_status (fst (handler Undefined ?b1 ?req)) = 503"
    and b: "res_body (fst (handler Undefined ?b1 ?req)) = ErrorBody (lit ''upstream down'')"
    by simp_all
  from w2 m2 n2 have c: "res_status (fst (handler Undefined ?b2 ?req)) = 500"
    and d: "res_body (fst (handler Undefined ?b2 ?req)) = ErrorBody (lit ''timeout of 15000ms exceeded'')"
    by simp_all
  from a b c d show ?thesis by blast
qed

section \<open>Properties of the search page\<close>

text \<open>
  C2. A search whose request is rejected with a response of status 404 ends with the
  backend's message, or the default not-found text when the response carries none, in
  the error state, with the not-found flag set, and the page shows the informational
  alert. A search rejected with any other status, or with no response at all, ends
  with the flag cleared and the backend's message or else the error's own message in
  the error state; the page then shows the destructive alert titled
  \<^verbatim>\<open>Search Failed\<close>. The page shows an alert only for a non-empty text, which is what
  the last hypothesis says: axios gives every error it raises a non-empty message.
  In both cases the loading flag is off and no property data is kept.
\<close>

theorem search_failure_alert:
  assumes "api a = Rejected (AxiosError resp msg)"
  shows "isLoading (handleSearchSubmit api a s) = False
    \<and> propertyData (handleSearchSubmit api a s) = None
    \<and> (map_option resp_status resp = Some 404 \<longrightarrow>
          error (handleSearchSubmit api a s) =
            Some (or_str (response_message resp)
              (lit ''No data found for the specified address. Please check the address and try again.''))
        \<and> isNotFoundError (handleSearchSubmit api a s)
        \<and> HomePage_alert (handleSearchSubmit api a s) =
            Some \<lparr>variant = Default, icon = AlertCircle, alert_title = lit ''Information'',
                  alert_description = or_str (response_message resp)
                    (lit ''No data found for the specified address. Please check the address and try again.'')\<rparr>)
    \<and> (map_option resp_status resp \<noteq> Some 404 \<longrightarrow>
          error (handleSearchSubmit api a s) = Some (or_str (response_message resp) msg)
        \<and> \<not> isNotFoundError (handleSearchSubmit api a s)
        \<and> (or_str (response_message resp) msg \<noteq> [] \<longrightarrow>
             HomePage_alert (handleSearchSubmit api a s) =
               Some \<lparr>variant = Destructive, icon = Terminal, alert_title = lit ''Search Failed'',
                     alert_description = or_str (response_message resp) msg\<rparr>))"
proof -
  let ?d = "lit ''No data found for the specified address. Please check the address and try again.''"
  have "?d \<noteq> []"
    by (simp add: lit_def)
  then have ne: "or_str (response_message resp) ?d \<noteq> []"
    by (rule or_str_nonempty)
  show ?thesis
  proof (cases resp)
    case None
    with assms show ?thesis
      by (simp add: handleSearchSubmit_def search_started_def HomePage_alert_def Let_def)
  next
    case (Some r)
    show ?thesis
    proof (cases "resp_status r = 404")
      case True
      with Some assms ne show ?thesis
        by (simp add: handleSearchSubmit_def search_started_def HomePage_alert_def Let_def)
    next
      case False
      with Some assms show ?thesis
        by (simp add: handleSearchSubmit_def search_started_def HomePage_alert_def Let_def)
    qed
  qed
qed

theorem search_failure_alert_witness:
  "HomePage_alert (handleSearchSubmit
      (\<lambda>a. Rejected (AxiosError
         (Some \<lparr>resp_status = 404,
                resp_data = Value \<lparr>message = Value (lit ''No property found'')\<rparr>\<rparr>)
         (lit ''Request failed with status code 404'')) :: nat axios_outcome)
      (lit ''1 Main St'')
      \<lparr>propertyData = None, isLoading = False, error = None, isNotFoundError = False\<rparr>) =
     Some \<lparr>variant = Default, icon = AlertCircle, alert_title = lit ''Information'',
           alert_description = lit ''No property found''\<rparr>
   \<and> HomePage_alert (handleSearchSubmit
      (\<lambda>a. Rejected (AxiosError
         (Some \<lparr>resp_status = 500, resp_data = Undefined\<rparr>)
         (lit ''Request failed with status code 500'')) :: nat axios_outcome)
      (lit ''1 Main St'')
      \<lparr>propertyData = None, isLoading = False, error = None, isNotFoundError = False\<rparr>) =
     Some \<lparr>variant = Destructive, icon = Terminal, alert_title = lit ''Search Failed'',
           alert_description = lit ''Request failed with status code 500''\<rparr>"
proof -
  let ?s = "\<lparr>propertyData = None :: nat option, isLoading = False, error = None,
    isNotFoundError = False\<rparr>"
  let ?r1 = "Some \<lparr>resp_status = 404,
                resp_data = Value \<lparr>message = Value (lit ''No property found'')\<rparr>\<rparr>"
  let ?r2 = "Some \<lparr>resp_status = 500, resp_data = (Undefined :: ApiErrorResponse optional)\<rparr>"
  let ?api1 = "\<lambda>a::jsstring. Rejected (AxiosError ?r1
         (lit ''Request failed with status code 404'')) :: nat axios_outcome"
  let ?api2 = "\<lambda>a::jsstring. Rejected (AxiosError ?r2
         (lit ''Request failed with status code 500'')) :: nat axios_outcome"
  have m1: "or_str (response_message ?r1)
      (lit ''No data found for the specified address. Please check the address and try again.'')
      = lit ''No property found''"
    by (simp add: response_message_def lit_def)
  have m2: "or_str (response_message ?r2) (lit ''Request failed with status code 500'')
      = lit ''Request failed with status code 500''"
    by (simp add: response_message_def)
  have n2: "lit ''Request failed with status code 500'' \<noteq> []"
    by (simp add: lit_def)
  have s1: "map_option resp_status ?r1 = Some 404" by simp
  have s2: "map_option resp_status ?r2 \<noteq> Some 404" by simp
  from search_failure_alert [where api = ?api1 and a = "lit ''1 Main St''" and resp = ?r1
      and msg = "lit ''Request failed with status code 404''" and s = ?s] s1 m1
  have a: "HomePage_alert (handleSearchSubmit ?api1 (lit ''1 Main St'') ?s) =
     Some \<lparr>variant = Default, icon = AlertCircle, alert_title = lit ''Information'',
           alert_description = lit ''No property found''\<rparr>"
    by simp
  from search_failure_alert [where api = ?api2 and a = "lit ''1 Main St''" and resp = ?r2
      and msg = "lit ''Request failed with status code 500''" and s = ?s] s2 m2 n2
  have b: "HomePage_alert (handleSearchSubmit ?api2 (lit ''1 Main St'') ?s) =
     Some \<lparr>variant = Destructive, icon = Terminal, alert_title = lit ''Search Failed'',
           alert_description = lit ''Request failed with status code 500''\<rparr>"
    by simp
  from a b show ?thesis by blast
qed

section \<open>Properties of the formatting helpers\<close>

lemma try_catch_returns: "(\<And>e. \<exists>s. h e = Inr s) \<Longrightarrow> \<exists>s. try_catch body h = Inr s"
  by (cases body) (simp_all add: try_catch_def)

lemma formatNumber_returns: "\<exists>s. formatNumber toLocaleString v = Inr s"
  by (cases v) (simp_all add: formatNumber_def try_catch_returns)

lemma en_US_currency_example:
  "en_US_toLocaleString 1234567 (lit ''en-US'')
     (Some \<lparr>style = lit ''currency'', currency = lit ''USD'', maximumFractionDigits = 0\<rparr>)
   = Inr (lit ''$1,234,567'')"
  by (simp add: en_US_toLocaleString_def en_US_integer_def lit_def digit_def)

text \<open>
  C5. \<open>formatCurrency\<close> of null and of undefined is \<^verbatim>\<open>N/A\<close>, whatever the second
  argument. \<open>formatCurrency(1234567, 0)\<close> hands the number to the runtime's
  \<^verbatim>\<open>toLocaleString\<close> with the locale \<^verbatim>\<open>en-US\<close> and the options
  \<^verbatim>\<open>{style: 'currency', currency: 'USD', maximumFractionDigits: 0}\<close> and returns what
  it gets: \<^verbatim>\<open>$1,234,567\<close> on a runtime that formats the number so.
\<close>

theorem formatCurrency_examples:
  "formatCurrency toLocaleString Null m = Inr (lit ''N/A'')
   \<and> formatCurrency toLocaleString Undefined m = Inr (lit ''N/A'')
   \<and> (toLocaleString 1234567 (lit ''en-US'')
         (Some \<lparr>style = lit ''currency'', currency = lit ''USD'', maximumFractionDigits = 0\<rparr>)
         = Inr (lit ''$1,234,567'') \<longrightarrow>
       formatCurrency toLocaleString (Value 1234567) (Some 0) = Inr (lit ''$1,234,567''))"
  by (simp add: formatCurrency_def try_catch_def)

theorem formatCurrency_examples_witness:
  "formatCurrency en_US_toLocaleString Null None = Inr (lit ''N/A'')
   \<and> formatCurrency en_US_toLocaleString Undefined None = Inr (lit ''N/A'')
   \<and> formatCurrency en_US_toLocaleString (Value 1234567) (Some 0) = Inr (lit ''$1,234,567'')"
  using formatCurrency_examples [where toLocaleString = en_US_toLocaleString and m = None]
    en_US_currency_example
  by blast

text \<open>
  C6. Each helper returns a string for every argument and every behaviour of the
  runtime, also when the runtime's formatting function throws: no thrown value leaves
  a helper. The result is determined by the argument and the runtime's functions
  (what a \<^verbatim>\<open>catch\<close> branch writes to the console is not part of it). Null and
  undefined give \<^verbatim>\<open>N/A\<close> (for \<open>formatDate\<close> the empty string too) and the default
  style class; a formatting function that throws gives \<^verbatim>\<open>N/A\<close> or
  \<^verbatim>\<open>Invalid Date\<close>; a date string that does not parse gives \<^verbatim>\<open>Invalid Date\<close>; a
  trend that is none of the three known ones gives the default style class.
\<close>

theorem formatting_helpers_total:
  "(\<exists>s. formatCurrency toLocaleString v m = Inr s)
   \<and> (\<exists>s. formatNumber toLocaleString v = Inr s)
   \<and> (\<exists>s. formatDate new_Date toLocaleDateString ds = Inr s)
   \<and> (\<exists>s. getTrendColor toLowerCase t = Inr s)
   \<and> formatCurrency toLocaleString Null m = Inr (lit ''N/A'')
   \<and> formatCurrency toLocaleString Undefined m = Inr (lit ''N/A'')
   \<and> formatNumber toLocaleString Null = Inr (lit ''N/A'')
   \<and> formatNumber toLocaleString Undefined = Inr (lit ''N/A'')
   \<and> formatDate new_Date toLocaleDateString Null = Inr (lit ''N/A'')
   \<and> formatDate new_Date toLocaleDateString Undefined = Inr (lit ''N/A'')
   \<and> formatDate new_Date toLocaleDateString (Value []) = Inr (lit ''N/A'')
   \<and> getTrendColor toLowerCase Null = Inr trend_yellow
   \<and> getTrendColor toLowerCase Undefined = Inr trend_yellow
   \<and> (\<forall>x e. toLocaleString x (lit ''en-US'')
          (Some \<lparr>style = lit ''currency'', currency = lit ''USD'',
                 maximumFractionDigits = (case m of None \<Rightarrow> 0 | Some k \<Rightarrow> k)\<rparr>) = Inl e \<longrightarrow>
        formatCurrency toLocaleString (Value x) m = Inr (lit ''N/A''))
   \<and> (\<forall>x e. toLocaleString x (lit ''en-US'') None = Inl e \<longrightarrow>
        formatNumber toLocaleString (Value x) = Inr (lit ''N/A''))
   \<and> (\<forall>d. d \<noteq> [] \<and> new_Date d = None \<longrightarrow>
        formatDate new_Date toLocaleDateString (Value d) = Inr (lit ''Invalid Date''))
   \<and> (\<forall>d u e. d \<noteq> [] \<and> new_Date d = Some u
          \<and> toLocaleDateString u (lit ''en-US'')
               \<lparr>year = lit ''numeric'', month = lit ''short'', day = lit ''numeric''\<rparr> = Inl e \<longrightarrow>
        formatDate new_Date toLocaleDateString (Value d) = Inr (lit ''Invalid Date''))
   \<and> (\<forall>u. toLowerCase u \<noteq> lit ''increasing'' \<and> toLowerCase u \<noteq> lit ''decreasing''
          \<and> toLowerCase u \<noteq> lit ''stable'' \<longrightarrow>
        getTrendColor toLowerCase (Value u) = Inr trend_yellow)"
proof -
  have c: "\<exists>s. formatCurrency toLocaleString v m = Inr s"
    by (cases v) (simp_all add: formatCurrency_def try_catch_returns)
  have n: "\<exists>s. formatNumber toLocaleString v = Inr s"
    by (rule formatNumber_returns)
  have d: "\<exists>s. formatDate new_Date toLocaleDateString ds = Inr s"
    by (cases ds) (simp_all add: formatDate_def try_catch_returns)
  have g: "\<exists>s. getTrendColor toLowerCase t = Inr s"
    by (cases t) (simp_all add: getTrendColor_def Let_def)
  have nulls: "formatCurrency toLocaleString Null m = Inr (lit ''N/A'')"
    "formatCurrency toLocaleString Undefined m = Inr (lit ''N/A'')"
    "formatNumber toLocaleString Null = Inr (lit ''N/A'')"
    "formatNumber toLocaleString Undefined = Inr (lit ''N/A'')"
    "formatDate new_Date toLocaleDateString Null = Inr (lit ''N/A'')"
    "formatDate new_Date toLocaleDateString Undefined = Inr (lit ''N/A'')"
    "formatDate new_Date toLocaleDateString (Value []) = Inr (lit ''N/A'')"
    "getTrendColor toLowerCase Null = Inr trend_yellow"
    "getTrendColor toLowerCase Undefined = Inr trend_yellow"
    by (simp_all add: formatCurrency_def formatNumber_def formatDate_def getTrendColor_def)
  have thrown:
    "\<forall>x e. toLocaleString x (lit ''en-US'')
          (Some \<lparr>style = lit ''currency'', currency = lit ''USD'',
                 maximumFractionDigits = (case m of None \<Rightarrow> 0 | Some k \<Rightarrow> k)\<rparr>) = Inl e \<longrightarrow>
        formatCurrency toLocaleString (Value x) m = Inr (lit ''N/A'')"
    "\<forall>x e. toLocaleString x (lit ''en-US'') None = Inl e \<longrightarrow>
        formatNumber toLocaleString (Value x) = Inr (lit ''N/A'')"
    by (simp_all add: formatCurrency_def formatNumber_def try_catch_def)
  have dates:
    "\<forall>d. d \<noteq> [] \<and> new_Date d = None \<longrightarrow>
        formatDate new_Date toLocaleDateString (Value d) = Inr (lit ''Invalid Date'')"
    "\<forall>d u e. d \<noteq> [] \<and> new_Date d = Some u
          \<and> toLocaleDateString u (lit ''en-US'')
               \<lparr>year = lit ''numeric'', month = lit ''short'', day = lit ''numeric''\<rparr> = Inl e \<longrightarrow>
        formatDate new_Date toLocaleDateString (Value d) = Inr (lit ''Invalid Date'')"
    by (simp_all add: formatDate_def try_catch_def)
  have trend: "\<forall>u. toLowerCase u \<noteq> lit ''increasing'' \<and> toLowerCase u \<noteq> lit ''decreasing''
          \<and> toLowerCase u \<noteq> lit ''stable'' \<longrightarrow>
        getTrendColor toLowerCase (Value u) = Inr trend_yellow"
    by (simp add: getTrendColor_def Let_def)
  from c n d g nulls thrown dates trend show ?thesis
    by (intro conjI)
qed

theorem formatting_helpers_total_witness:
  "formatCurrency (\<lambda>x l opts. Inl (OtherError (lit ''RangeError''))) (Value (5::int)) None
     = Inr (lit ''N/A'')
   \<and> formatNumber (\<lambda>x l opts. Inl (OtherError (lit ''RangeError''))) (Value (5::int))
     = Inr (lit ''N/A'')
   \<and> formatDate (\<lambda>d. None :: nat option) (\<lambda>u l opts. Inl NonError) (Value (lit ''soon''))
     = Inr (lit ''Invalid Date'')
   \<and> formatDate (\<lambda>d. Some (0::nat)) (\<lambda>u l opts. Inl NonError) (Value (lit ''2023-01-01''))
     = Inr (lit ''Invalid Date'')
   \<and> getTrendColor ascii_toLowerCase (Value (lit ''Sideways'')) = Inr trend_yellow"
proof -
  have l: "ascii_toLowerCase (lit ''Sideways'') \<noteq> lit ''increasing''
      \<and> ascii_toLowerCase (lit ''Sideways'') \<noteq> lit ''decreasing''
      \<and> ascii_toLowerCase (lit ''Sideways'') \<noteq> lit ''stable''"
    by (simp add: ascii_toLowerCase_def lit_def)
  have s: "lit ''soon'' \<noteq> []" "lit ''2023-01-01'' \<noteq> []"
    by (simp_all add: lit_def)
  note w1 = formatting_helpers_total
    [where toLocaleString = "\<lambda>(x::int) l opts. Inl (OtherError (lit ''RangeError''))"
       and m = None and new_Date = "\<lambda>d. None :: nat option"
       and toLocaleDateString = "\<lambda>u l opts. Inl NonError"
       and toLowerCase = ascii_toLowerCase]
  note w2 = formatting_helpers_total
    [where toLocaleString = "\<lambda>(x::int) l opts. Inl (OtherError (lit ''RangeError''))"
       and m = None and new_Date = "\<lambda>d. Some (0::nat)"
       and toLocaleDateString = "\<lambda>u l opts. Inl NonError"
       and toLowerCase = ascii_toLowerCase]
  from w1 have a: "formatCurrency (\<lambda>x l opts. Inl (OtherError (lit ''RangeError'')))
      (Value (5::int)) None = Inr (lit ''N/A'')"
    by blast
  from w1 have b: "formatNumber (\<lambda>x l opts. Inl (OtherError (lit ''RangeError'')))
      (Value (5::int)) = Inr (lit ''N/A'')"
    by blast
  from w1 s have c: "formatDate (\<lambda>d. None :: nat option) (\<lambda>u l opts. Inl NonError)
      (Value (lit ''soon'')) = Inr (lit ''Invalid Date'')"
    by blast
  from w2 s have d: "formatDate (\<lambda>d. Some (0::nat)) (\<lambda>u l opts. Inl NonError)
      (Value (lit ''2023-01-01'')) = Inr (lit ''Invalid Date'')"
    by blast
  from w1 l have e: "getTrendColor ascii_toLowerCase (Value (lit ''Sideways'')) = Inr trend_yellow"
    by blast
  from a b c d e show ?thesis by blast
qed

section \<open>Properties of the charts and the dashboard\<close>

lemma slice_last_nonempty: "xs \<noteq> [] \<Longrightarrow> slice_last xs = [last xs]"
  by (cases xs rule: rev_cases) (simp_all add: slice_last_def)

lemma slice_last_empty: "slice_last [] = []"
  by (simp add: slice_last_def)

lemma PredictionChart_None: "PredictionChart d None = map (\<lambda>p. (date p, val p)) d"
  by (simp add: PredictionChart_def)

lemma PredictionChart_Some:
  "PredictionChart d (Some h) =
     (if h = [] then map (\<lambda>p. (date p, val p)) d
      else (date (last h), val (last h)) # map (\<lambda>p. (date p, val p)) d)"
  by (simp add: PredictionChart_def last_conv_nth)

lemma CensusDataItem_returns: "\<exists>i. CensusDataItem toLocaleString label v = Inr i"
proof (cases v)
  case (Value x)
  obtain s where "formatNumber toLocaleString (Value x) = Inr s"
    using formatNumber_returns by blast
  with Value show ?thesis
    by (simp add: CensusDataItem_def)
qed (simp_all add: CensusDataItem_def)

lemma demographics_section_returns: "\<exists>b. demographics_section toLocaleString data = Inr b"
proof (cases "hasCensusData data")
  case False
  then show ?thesis
    by (simp add: demographics_section_def)
next
  case True
  let ?f = "\<lambda>f. case (case censusData data of Value c \<Rightarrow> Some c | _ \<Rightarrow> None) of
      Some c \<Rightarrow> f c | None \<Rightarrow> Undefined"
  obtain i1 where 1: "CensusDataItem toLocaleString (lit ''Total Population'')
      (?f totalPopulation) = Inr i1"
    using CensusDataItem_returns by blast
  obtain i2 where 2: "CensusDataItem toLocaleString (lit ''Median Age'')
      (?f medianAge) = Inr i2"
    using CensusDataItem_returns by blast
  obtain i3 where 3: "CensusDataItem toLocaleString (lit ''Male Population'')
      (?f malePopulation) = Inr i3"
    using CensusDataItem_returns by blast
  obtain i4 where 4: "CensusDataItem toLocaleString (lit ''Female Population'')
      (?f femalePopulation) = Inr i4"
    using CensusDataItem_returns by blast
  from True 1 2 3 4 show ?thesis
    by (simp add: demographics_section_def Let_def)
qed

lemma InsightsDashboard_card:
  "\<exists>c. InsightsDashboard toLocaleString (Some data) False = Inr (Card c)
     \<and> demographics_section toLocaleString data = Inr (demographics c)
     \<and> historical_chart c = historical_section data
     \<and> forecast_chart c = forecast_section data"
proof -
  obtain b where "demographics_section toLocaleString data = Inr b"
    using demographics_section_returns by blast
  then show ?thesis
    by (simp add: InsightsDashboard_def)
qed

text \<open>
  C10. The series \<open>PredictionChart\<close> plots: without historical data, or with an
  empty list of it, the points of \<open>d\<close>; otherwise the last historical point
  followed by the points of \<open>d\<close>. Each point becomes the pair of its date and its
  value, in the order of the list.
\<close>

theorem PredictionChart_series:
  "PredictionChart d None = map (\<lambda>p. (date p, val p)) d
   \<and> PredictionChart d (Some h) =
       (if h = [] then map (\<lambda>p. (date p, val p)) d
        else (date (last h), val (last h)) # map (\<lambda>p. (date p, val p)) d)
   \<and> PredictionChart d (Some (hs @ [x])) = (date x, val x) # map (\<lambda>p. (date p, val p)) d"
  by (simp add: PredictionChart_None PredictionChart_Some)

text \<open>
  C8. For data without \<open>censusData\<close> (the key missing or null), and the dashboard
  not loading, the card is rendered and the body of its Demographics section is the
  placeholder paragraph; none of the four census items is shown.
\<close>

theorem demographics_placeholder:
  assumes "censusData data = Undefined \<or> censusData data = Null"
  shows "\<exists>c. InsightsDashboard toLocaleString (Some data) False = Inr (Card c)
    \<and> demographics c = Placeholder (lit ''Demographic data is not available for this area.'')
    \<and> shown_items (demographics c) = []"
proof -
  from assms have "\<not> hasCensusData data"
    by (auto simp: hasCensusData_def)
  then have "demographics_section toLocaleString data =
      Inr (Placeholder (lit ''Demographic data is not available for this area.''))"
    by (simp add: demographics_section_def)
  then show ?thesis
    by (simp add: InsightsDashboard_def shown_items_def)
qed

theorem demographics_placeholder_witness:
  "\<exists>c. InsightsDashboard en_US_toLocaleString (Some (no_data\<lparr>censusData := Null\<rparr>)) False
        = Inr (Card c)
    \<and> demographics c = Placeholder (lit ''Demographic data is not available for this area.'')
    \<and> shown_items (demographics c) = []"
proof -
  have "censusData (no_data\<lparr>censusData := Null\<rparr> :: int PropertyData) = Undefined
      \<or> censusData (no_data\<lparr>censusData := Null\<rparr> :: int PropertyData) = Null"
    by simp
  then show ?thesis
    by (rule demographics_placeholder)
qed

text \<open>
  C7. For data whose \<open>historicalValues\<close> are the two points of 2023-01-01 (300000)
  and 2024-01-01 (320000) and whose \<open>predictionPoints\<close> are missing or null, and the
  dashboard not loading, the card is rendered; the historical chart plots exactly these
  two points, and the body of the forecast section is the placeholder paragraph.
\<close>

theorem two_points_and_no_forecast:
  assumes "historicalValues data =
      Value [\<lparr>date = lit ''2023-01-01'', val = 300000\<rparr>,
             \<lparr>date = lit ''2024-01-01'', val = 320000\<rparr>]"
    and "predictionPoints data = Undefined \<or> predictionPoints data = Null"
  shows "\<exists>c. InsightsDashboard toLocaleString (Some data) False = Inr (Card c)
    \<and> historical_chart c =
        Chart [(lit ''2023-01-01'', 300000), (lit ''2024-01-01'', 320000)]
    \<and> forecast_chart c = Placeholder (lit ''Value forecast chart could not be generated.'')"
proof -
  from assms(1) have h: "historical_section data =
      Chart [(lit ''2023-01-01'', 300000), (lit ''2024-01-01'', 320000)]"
    by (simp add: historical_section_def hasHistoricalData_def ValueHistoryChart_def)
  from assms(2) have "\<not> hasPredictionPoints data"
    by (auto simp: hasPredictionPoints_def)
  then have f: "forecast_section data =
      Placeholder (lit ''Value forecast chart could not be generated.'')"
    by (simp add: forecast_section_def)
  from InsightsDashboard_card [of toLocaleString data] h f show ?thesis
    by auto
qed

theorem two_points_and_no_forecast_witness:
  "\<exists>c. InsightsDashboard en_US_toLocaleString (Some two_point_data) False = Inr (Card c)
    \<and> historical_chart c =
        Chart [(lit ''2023-01-01'', 300000), (lit ''2024-01-01'', 320000)]
    \<and> forecast_chart c = Placeholder (lit ''Value forecast chart could not be generated.'')"
proof -
  have 1: "historicalValues two_point_data =
      Value [\<lparr>date = lit ''2023-01-01'', val = 300000\<rparr>,
             \<lparr>date = lit ''2024-01-01'', val = 320000\<rparr>]"
    by (simp add: two_point_data_def)
  have 2: "predictionPoints two_point_data = Undefined \<or> predictionPoints two_point_data = Null"
    by (simp add: two_point_data_def no_data_def)
  from 1 2 show ?thesis
    by (rule two_points_and_no_forecast)
qed

text \<open>
  C9. The claim that every record accepted for display has, in each point sequence
  that is present, at least one point and ascending dates, fails: the record
  \<open>unordered_data\<close> breaks the invariant in both sequences, yet the proxy relays
  it, the page stores it, and the dashboard renders it (the placeholder for the empty
  sequence, the two prediction points in the descending order received).
\<close>

theorem sequence_invariant_counterexample:
  "\<not> spec_sequence_invariant (historicalValues unordered_data)
   \<and> \<not> spec_sequence_invariant (predictionPoints unordered_data)
   \<and> handler Undefined
        (\<lambda>c. Resolved \<lparr>resp_status = 200, resp_data = Value unordered_data\<rparr>)
        \<lparr>req_method = Some (lit ''GET''), query_address = QString (lit ''1 Main St'')\<rparr> =
        (\<lparr>res_status = 200, res_headers = [], res_body = DataBody unordered_data\<rparr>,
         [\<lparr>call_url = lit ''http://localhost:8001/property'',
           call_address = lit ''1 Main St'', call_timeout = 15000\<rparr>])
   \<and> handleSearchSubmit
        (\<lambda>a. Resolved \<lparr>resp_status = 200, resp_data = Value unordered_data\<rparr>)
        (lit ''1 Main St'')
        \<lparr>propertyData = None, isLoading = False, error = None, isNotFoundError = False\<rparr> =
        \<lparr>propertyData = Some unordered_data, isLoading = False, error = None,
          isNotFoundError = False\<rparr>
   \<and> InsightsDashboard en_US_toLocaleString (Some unordered_data) False =
        Inr (Card
          \<lparr>demographics_heading = lit ''Demographics (Zip Code: N/A)'',
           demographics = Placeholder (lit ''Demographic data is not available for this area.''),
           historical_chart =
             Placeholder (lit ''Historical value data is not available for this property.''),
           forecast_chart = Chart [(lit ''2026-01-01'', 2), (lit ''2025-01-01'', 1)]\<rparr>)"
proof -
  have a: "\<not> spec_sequence_invariant (historicalValues unordered_data)"
    by (simp add: spec_sequence_invariant_def unordered_data_def)
  have b: "\<not> spec_sequence_invariant (predictionPoints unordered_data)"
    by (simp add: spec_sequence_invariant_def unordered_data_def lit_def)
  have t: "trim (lit ''1 Main St'') = lit ''1 Main St''"
    by (simp add: trim_def lit_def is_ws_def)
  have n: "lit ''1 Main St'' \<noteq> []"
    by (simp add: lit_def)
  have c: "handler Undefined
        (\<lambda>c. Resolved \<lparr>resp_status = 200, resp_data = Value unordered_data\<rparr>)
        \<lparr>req_method = Some (lit ''GET''), query_address = QString (lit ''1 Main St'')\<rparr> =
        (\<lparr>res_status = 200, res_headers = [], res_body = DataBody unordered_data\<rparr>,
         [\<lparr>call_url = lit ''http://localhost:8001/property'',
           call_address = lit ''1 Main St'', call_timeout = 15000\<rparr>])"
    using t n by (simp add: handler_def backend_request_def BACKEND_API_URL_def)
  have d: "handleSearchSubmit
        (\<lambda>a. Resolved \<lparr>resp_status = 200, resp_data = Value unordered_data\<rparr>)
        (lit ''1 Main St'')
        \<lparr>propertyData = None, isLoading = False, error = None, isNotFoundError = False\<rparr> =
        \<lparr>propertyData = Some unordered_data, isLoading = False, error = None,
          isNotFoundError = False\<rparr>"
    by (simp add: handleSearchSubmit_def search_started_def)
  have demo: "demographics_section en_US_toLocaleString unordered_data =
      Inr (Placeholder (lit ''Demographic data is not available for this area.''))"
    by (simp add: demographics_section_def hasCensusData_def unordered_data_def no_data_def)
  have hist: "historical_section unordered_data =
      Placeholder (lit ''Historical value data is not available for this property.'')"
    by (simp add: historical_section_def hasHistoricalData_def unordered_data_def)
  have fore: "forecast_section unordered_data =
      Chart [(lit ''2026-01-01'', 2), (lit ''2025-01-01'', 1)]"
    by (simp add: forecast_section_def hasPredictionPoints_def unordered_data_def
        PredictionChart_def slice_last_def)
  have zip: "zipCode unordered_data = Undefined"
    by (simp add: unordered_data_def no_data_def)
  have head: "lit ''Demographics (Zip Code: '' @ lit ''N/A'' @ lit '')''
      = lit ''Demographics (Zip Code: N/A)''"
    by (simp add: lit_def)
  have e: "InsightsDashboard en_US_toLocaleString (Some unordered_data) False =
        Inr (Card
          \<lparr>demographics_heading = lit ''Demographics (Zip Code: N/A)'',
           demographics = Placeholder (lit ''Demographic data is not available for this area.''),
           historical_chart =
             Placeholder (lit ''Historical value data is not available for this property.''),
           forecast_chart = Chart [(lit ''2026-01-01'', 2), (lit ''2025-01-01'', 1)]\<rparr>)"
    by (simp add: InsightsDashboard_def demo hist fore zip head)
  from a b c d e show ?thesis
    by (intro conjI)
qed

text \<open>
  C9, as the code has it. No step checks the sequences of a record: the proxy relays
  the body of a 200 response as it is and the page stores the body of a resolved
  response as it is. The dashboard shows the placeholder of a chart section when the
  sequence is missing, null or empty; it plots a non-empty sequence point by point in
  the order received, the forecast chart after the last historical point if there is
  one. Nothing is sorted and no date is compared.
\<close>

theorem sequences_shown_as_received:
  "relay (Resolved \<lparr>resp_status = 200, resp_data = Value d\<rparr>) =
     \<lparr>res_status = 200, res_headers = [], res_body = DataBody d\<rparr>
   \<and> propertyData
        (handleSearchSubmit (\<lambda>a. Resolved \<lparr>resp_status = st, resp_data = Value d\<rparr>) a s)
      = Some d
   \<and> historical_section data =
       (case historicalValues data of
          Value xs \<Rightarrow>
            if xs = []
            then Placeholder (lit ''Historical value data is not available for this property.'')
            else Chart (map (\<lambda>p. (date p, val p)) xs)
        | Undefined \<Rightarrow>
            Placeholder (lit ''Historical value data is not available for this property.'')
        | Null \<Rightarrow>
            Placeholder (lit ''Historical value data is not available for this property.''))
   \<and> forecast_section data =
       (case predictionPoints data of
          Value ps \<Rightarrow>
            if ps = [] then Placeholder (lit ''Value forecast chart could not be generated.'')
            else Chart
              ((case historicalValues data of
                  Value xs \<Rightarrow> if xs = [] then [] else [(date (last xs), val (last xs))]
                | Undefined \<Rightarrow> []
                | Null \<Rightarrow> [])
               @ map (\<lambda>p. (date p, val p)) ps)
        | Undefined \<Rightarrow> Placeholder (lit ''Value forecast chart could not be generated.'')
        | Null \<Rightarrow> Placeholder (lit ''Value forecast chart could not be generated.''))"
proof -
  have r: "relay (Resolved \<lparr>resp_status = 200, resp_data = Value d\<rparr>) =
     \<lparr>res_status = 200, res_headers = [], res_body = DataBody d\<rparr>"
    by simp
  have p: "propertyData
        (handleSearchSubmit (\<lambda>a. Resolved \<lparr>resp_status = st, resp_data = Value d\<rparr>) a s)
      = Some d"
    by (simp add: handleSearchSubmit_def search_started_def)
  have h: "historical_section data =
       (case historicalValues data of
          Value xs \<Rightarrow>
            if xs = []
            then Placeholder (lit ''Historical value data is not available for this property.'')
            else Chart (map (\<lambda>p. (date p, val p)) xs)
        | Undefined \<Rightarrow>
            Placeholder (lit ''Historical value data is not available for this property.'')
        | Null \<Rightarrow>
            Placeholder (lit ''Historical value data is not available for this property.''))"
    by (cases "historicalValues data")
      (simp_all add: historical_section_def hasHistoricalData_def ValueHistoryChart_def)
  have f: "forecast_section data =
       (case predictionPoints data of
          Value ps \<Rightarrow>
            if ps = [] then Placeholder (lit ''Value forecast chart could not be generated.'')
            else Chart
              ((case historicalValues data of
                  Value xs \<Rightarrow> if xs = [] then [] else [(date (last xs), val (last xs))]
                | Undefined \<Rightarrow> []
                | Null \<Rightarrow> [])
               @ map (\<lambda>p. (date p, val p)) ps)
        | Undefined \<Rightarrow> Placeholder (lit ''Value forecast chart could not be generated.'')
        | Null \<Rightarrow> Placeholder (lit ''Value forecast chart could not be generated.''))"
  proof (cases "predictionPoints data")
    case (Value ps)
    show ?thesis
    proof (cases "historicalValues data")
      case (Value xs)
      with \<open>predictionPoints data = Value ps\<close> show ?thesis
        by (cases "xs = []")
          (simp_all add: forecast_section_def hasPredictionPoints_def PredictionChart_Some
            slice_last_nonempty slice_last_empty)
    qed (simp_all add: Value forecast_section_def hasPredictionPoints_def PredictionChart_None)
  qed (simp_all add: forecast_section_def hasPredictionPoints_def)
  from r p h f show ?thesis
    by (intro conjI)
qed

end
